theory Spec2Isabelle
  imports Main
begin

section \<open>JavaScript values as the script sees them\<close>

text \<open>
  The script handles values decoded from JSON (the API response, the cache entry) with
  JavaScript's dynamic operations: truthiness, \<^verbatim>\<open>typeof\<close>, property reads,
  \<^verbatim>\<open>Array.isArray\<close> and the numeric coercion of the \<^verbatim>\<open>-\<close> operator.

  \<^item> A number is an \<^typ>\<open>int\<close>: the timestamps (epoch milliseconds) and HTTP status
    codes of the script are integers far below \<open>2 ^ 53\<close>, where the arithmetic of
    doubles is exact. Fractions, infinities and NaN as stored values are outside the
    model; NaN as the result of a coercion is \<open>None\<close>.
  \<^item> A string is a \<^typ>\<open>string\<close>; each \<^typ>\<open>char\<close> is read as the code unit of the
    same number (U+0000 to U+00FF). Strings with other code units are outside the model.
  \<^item> An object is the list of its own properties, as \<^verbatim>\<open>JSON.parse\<close> creates them
    (keys are unique); an array is the list of its elements.
\<close>

datatype jsval =
    Undefined
  | Null
  | Bool bool
  | Num int
  | Str string
  | Arr "jsval list"
  | Obj "(string \<times> jsval) list"

text \<open>
  What the script can catch or throw: the two \<^verbatim>\<open>Error\<close> objects it builds itself, with
  the side fields \<^verbatim>\<open>status\<close> and \<^verbatim>\<open>body\<close> it attaches (absent: \<open>None\<close>), and
  the platform's exceptions. A \<^verbatim>\<open>DOMException\<close> carries its name
  (\<^verbatim>\<open>AbortError\<close>, \<^verbatim>\<open>QuotaExceededError\<close>, \<^verbatim>\<open>SecurityError\<close>).
\<close>

datatype js_error =
    Error string "nat option" "string option"
  | TypeError
  | SyntaxError
  | DOMException string

type_synonym 'a result = "js_error + 'a"

text \<open>\<^verbatim>\<open>err.status\<close>: only the script's own API error has the property.\<close>

fun err_status :: "js_error \<Rightarrow> nat option" where
  "err_status (Error msg st bd) = st"
| "err_status TypeError = None"
| "err_status SyntaxError = None"
| "err_status (DOMException nm) = None"

text \<open>Sequencing of computations that may throw: the first exception wins.\<close>

definition and_then :: "'a result \<Rightarrow> ('a \<Rightarrow> 'b result) \<Rightarrow> 'b result" where
  "and_then r f = (case r of Inl e \<Rightarrow> Inl e | Inr x \<Rightarrow> f x)"

text \<open>ToBoolean, on the values of the model.\<close>

fun truthy :: "jsval \<Rightarrow> bool" where
  "truthy Undefined = False"
| "truthy Null = False"
| "truthy (Bool b) = b"
| "truthy (Num n) = (n \<noteq> 0)"
| "truthy (Str s) = (s \<noteq> [])"
| "truthy (Arr xs) = True"
| "truthy (Obj fs) = True"

fun typeof :: "jsval \<Rightarrow> string" where
  "typeof Undefined = ''undefined''"
| "typeof Null = ''object''"
| "typeof (Bool b) = ''boolean''"
| "typeof (Num n) = ''number''"
| "typeof (Str s) = ''string''"
| "typeof (Arr xs) = ''object''"
| "typeof (Obj fs) = ''object''"

fun isArray :: "jsval \<Rightarrow> bool" where
  "isArray (Arr xs) = True"
| "isArray v = False"

text \<open>
  A property read \<^verbatim>\<open>v.k\<close> or \<^verbatim>\<open>v[k]\<close> with a string key: a TypeError on
  \<^verbatim>\<open>null\<close> and \<^verbatim>\<open>undefined\<close>, the own property of an object, and
  \<^verbatim>\<open>undefined\<close> where there is none. The keys the script reads (\<^verbatim>\<open>ts\<close>,
  \<^verbatim>\<open>data\<close>, \<^verbatim>\<open>tag_name\<close>, \<^verbatim>\<open>name\<close>, \<^verbatim>\<open>assets\<close>,
  \<^verbatim>\<open>browser_download_url\<close>) name no member of a built-in prototype and no
  intrinsic property of a string or an array, so the read is exact for them. It is not
  exact for a key that names an inherited member (\<^verbatim>\<open>constructor\<close>,
  \<^verbatim>\<open>toString\<close>) or an index or the length of a string or an array: what is
  proved about the computed key of \<^verbatim>\<open>release[prefer]\<close> is proved for the keys
  \<^verbatim>\<open>tag_name\<close> and \<^verbatim>\<open>name\<close>, the two that the rule of the specification
  and every call of the script give.
\<close>

fun get_prop :: "jsval \<Rightarrow> string \<Rightarrow> jsval result" where
  "get_prop Undefined k = Inl TypeError"
| "get_prop Null k = Inl TypeError"
| "get_prop (Obj fs) k = Inr (case map_of fs k of None \<Rightarrow> Undefined | Some v \<Rightarrow> v)"
| "get_prop v k = Inr Undefined"

text \<open>Optional chaining \<^verbatim>\<open>v?.k\<close>.\<close>

definition opt_prop :: "jsval \<Rightarrow> string \<Rightarrow> jsval result" where
  "opt_prop v k = (if v = Null \<or> v = Undefined then Inr Undefined else get_prop v k)"

text \<open>An indexed read \<^verbatim>\<open>v[i]\<close>; out of range it is \<^verbatim>\<open>undefined\<close>.\<close>

fun get_index :: "jsval \<Rightarrow> nat \<Rightarrow> jsval result" where
  "get_index Undefined i = Inl TypeError"
| "get_index Null i = Inl TypeError"
| "get_index (Arr xs) i = Inr (if i < length xs then xs ! i else Undefined)"
| "get_index v i = Inr Undefined"

subsection \<open>Coercion to a number\<close>

text \<open>
  \<^verbatim>\<open>Date.now() - ts\<close> applies ToNumber to \<^verbatim>\<open>ts\<close>. On an object or an array
  that is ToPrimitive first (ECMAScript, OrdinaryToPrimitive): the methods
  \<^verbatim>\<open>valueOf\<close> and \<^verbatim>\<open>toString\<close> are looked up, the callable ones are called,
  and a TypeError is thrown when none returns a primitive. For a value decoded from JSON:
  \<^item> \<^verbatim>\<open>valueOf\<close> never returns a primitive (the inherited one returns the object, an
    own property of that name is no function);
  \<^item> an object's \<^verbatim>\<open>toString\<close> is the inherited one, which returns
    \<^verbatim>\<open>[object Object]\<close>, unless the object has an own property of that name, which is
    no function: then the conversion throws;
  \<^item> an array's \<^verbatim>\<open>toString\<close> joins its elements with commas, \<^verbatim>\<open>null\<close>
    and \<^verbatim>\<open>undefined\<close> as the empty string, every other element by ToString.
\<close>

fun digit_char :: "nat \<Rightarrow> char" where
  "digit_char n = char_of (48 + n)"

fun show_nat :: "nat \<Rightarrow> string" where
  "show_nat n = (if n < 10 then [digit_char n] else show_nat (n div 10) @ [digit_char (n mod 10)])"

definition show_int :: "int \<Rightarrow> string" where
  "show_int i = (if i < 0 then CHR ''-'' # show_nat (nat (- i)) else show_nat (nat i))"

fun ToString :: "jsval \<Rightarrow> string result"
  and join_elems :: "jsval list \<Rightarrow> string result"
where
  "ToString Undefined = Inr ''undefined''"
| "ToString Null = Inr ''null''"
| "ToString (Bool b) = Inr (if b then ''true'' else ''false'')"
| "ToString (Num n) = Inr (show_int n)"
| "ToString (Str s) = Inr s"
| "ToString (Arr xs) = join_elems xs"
| "ToString (Obj fs) =
     (if map_of fs ''toString'' = None then Inr ''[object Object]'' else Inl TypeError)"
| "join_elems [] = Inr []"
| "join_elems (x # xs) =
     (case (if x = Null \<or> x = Undefined then Inr [] else ToString x) of
        Inl e \<Rightarrow> Inl e
      | Inr s \<Rightarrow>
          (if xs = [] then Inr s
           else (case join_elems xs of Inl e \<Rightarrow> Inl e | Inr t \<Rightarrow> Inr (s @ '','' @ t))))"

declare show_nat.simps [simp del]

text \<open>
  ToNumber. The grammar that reads a string as a number (StringToNumber) is the
  language's, not the script's: it is a parameter, \<open>None\<close> for NaN.
\<close>

fun ToNumber :: "(string \<Rightarrow> int option) \<Rightarrow> jsval \<Rightarrow> int option result" where
  "ToNumber s2n Undefined = Inr None"
| "ToNumber s2n Null = Inr (Some 0)"
| "ToNumber s2n (Bool b) = Inr (Some (if b then 1 else 0))"
| "ToNumber s2n (Num n) = Inr (Some n)"
| "ToNumber s2n (Str s) = Inr (s2n s)"
| "ToNumber s2n (Arr xs) = and_then (ToString (Arr xs)) (\<lambda>s. Inr (s2n s))"
| "ToNumber s2n (Obj fs) = and_then (ToString (Obj fs)) (\<lambda>s. Inr (s2n s))"

section \<open>The platform: storage, clock, network\<close>

text \<open>
  A response as the script reads it: \<^verbatim>\<open>res.ok\<close>, \<^verbatim>\<open>res.status\<close>,
  \<^verbatim>\<open>res.statusText\<close>, and what \<^verbatim>\<open>res.text()\<close> and \<^verbatim>\<open>res.json()\<close>
  settle to (either may reject). A call of \<^verbatim>\<open>fetch\<close> rejects (network failure, or
  the abort that the timer of \<^verbatim>\<open>fetchWithTimeout\<close> sends) or answers with a response.
  The timer itself is real time and is not modelled: its abort is one of the rejections
  the environment may give.
\<close>

record response =
  ok :: bool
  status :: nat
  statusText :: string
  body_text :: "string result"
  json :: "jsval result"

datatype fetch_outcome = Rejects js_error | Responds response

text \<open>
  What the script observably does to the outside: a request (with what
  \<^verbatim>\<open>fetchWithTimeout\<close> made of it) and a backoff wait (in milliseconds).
\<close>

datatype event = Request string "jsval result" | Sleep int

fun is_request :: "event \<Rightarrow> bool" where
  "is_request (Request u r) = True"
| "is_request (Sleep ms) = False"

text \<open>
  The environment, fixed during a run: the JSON codec, StringToNumber, the outcome and
  the duration of the \<open>i\<close>-th request to a URL, and whether the store accepts a write
  (quota, access).
\<close>

record env =
  JSON_parse :: "string \<Rightarrow> jsval result"
  JSON_stringify :: "jsval \<Rightarrow> string result"
  StringToNumber :: "string \<Rightarrow> int option"
  fetch :: "string \<Rightarrow> nat \<Rightarrow> fetch_outcome"
  elapsed :: "string \<Rightarrow> nat \<Rightarrow> int"
  accepts :: "(string \<rightharpoonup> string) \<Rightarrow> string \<Rightarrow> string \<Rightarrow> bool"

text \<open>
  The state a run changes: the items of \<^verbatim>\<open>localStorage\<close>, the clock
  (\<^verbatim>\<open>Date.now()\<close>) and the trace of events so far.
\<close>

record world =
  items :: "string \<rightharpoonup> string"
  now :: int
  trace :: "event list"

definition requests :: "world \<Rightarrow> nat" where
  "requests w = length (filter is_request (trace w))"

definition getItem :: "world \<Rightarrow> string \<Rightarrow> string option" where
  "getItem w k = items w k"

definition setItem :: "env \<Rightarrow> world \<Rightarrow> string \<Rightarrow> string \<Rightarrow> world result" where
  "setItem env w k v =
     (if accepts env (items w) k v then Inr (w\<lparr>items := (items w)(k \<mapsto> v)\<rparr>)
      else Inl (DOMException ''QuotaExceededError''))"

section \<open>The script\<close>

definition GITHUB_API :: string where
  "GITHUB_API = ''https://api.github.com''"

definition CACHE_PREFIX :: string where
  "CACHE_PREFIX = ''boiler:gh_latest:''"

definition CACHE_TTL_MS :: int where
  "CACHE_TTL_MS = 6 * 60 * 60 * 1000"

definition MAX_RETRIES :: nat where
  "MAX_RETRIES = 2"

definition safeJsonParse :: "env \<Rightarrow> string \<Rightarrow> jsval" where
  "safeJsonParse env raw = (case JSON_parse env raw of Inl e \<Rightarrow> Null | Inr v \<Rightarrow> v)"

definition cacheKey :: "string \<Rightarrow> string" where
  "cacheKey repo = CACHE_PREFIX @ repo"

text \<open>
  \<^verbatim>\<open>getCached\<close>. \<^verbatim>\<open>raw\<close> is \<^verbatim>\<open>null\<close> (\<open>None\<close>) or a string, falsy when
  empty. The comparison with a NaN difference is false, so the entry counts as fresh.
\<close>

definition getCached :: "env \<Rightarrow> string \<Rightarrow> world \<Rightarrow> jsval result" where
  "getCached env repo w =
     (case getItem w (cacheKey repo) of
        None \<Rightarrow> Inr Null
      | Some raw \<Rightarrow>
          if raw = [] then Inr Null
          else
            let obj = safeJsonParse env raw in
            if \<not> truthy obj \<or> typeof obj \<noteq> ''object'' then Inr Null
            else
              and_then (get_prop obj ''ts'') (\<lambda>ts.
              and_then (get_prop obj ''data'') (\<lambda>data.
                if \<not> truthy ts \<or> \<not> truthy data then Inr Null
                else
                  and_then (ToNumber (StringToNumber env) ts) (\<lambda>t.
                    if (case t of None \<Rightarrow> False | Some n \<Rightarrow> now w - n > CACHE_TTL_MS)
                    then Inr Null
                    else Inr data))))"

text \<open>\<^verbatim>\<open>setCached\<close>: whatever the \<^verbatim>\<open>try\<close> block throws is dropped.\<close>

definition setCached :: "env \<Rightarrow> string \<Rightarrow> jsval \<Rightarrow> world \<Rightarrow> world" where
  "setCached env repo data w =
     (case and_then (JSON_stringify env (Obj [(''ts'', Num (now w)), (''data'', data)]))
             (\<lambda>s. setItem env w (cacheKey repo) s) of
        Inl e \<Rightarrow> w
      | Inr w' \<Rightarrow> w')"

definition sleep :: "int \<Rightarrow> world \<Rightarrow> world" where
  "sleep ms w = w\<lparr>now := now w + ms, trace := trace w @ [Sleep ms]\<rparr>"

text \<open>
  \<^verbatim>\<open>fetchWithTimeout\<close>: the error the script builds for a response that is not ok,
  what the \<^verbatim>\<open>try\<close> block makes of an outcome, and the call itself, which asks the
  environment for the outcome of the next request and records it.
\<close>

definition api_error :: "response \<Rightarrow> js_error" where
  "api_error res =
     Error (''GitHub API error '' @ show_nat (status res) @ '' '' @ statusText res)
       (Some (status res))
       (Some (case body_text res of Inl e \<Rightarrow> [] | Inr t \<Rightarrow> t))"

definition fetch_result :: "fetch_outcome \<Rightarrow> jsval result" where
  "fetch_result out =
     (case out of
        Rejects e \<Rightarrow> Inl e
      | Responds res \<Rightarrow> if \<not> ok res then Inl (api_error res) else json res)"

definition fetchWithTimeout :: "env \<Rightarrow> string \<Rightarrow> world \<Rightarrow> jsval result \<times> world" where
  "fetchWithTimeout env url w =
     (let i = requests w;
          r = fetch_result (fetch env url i)
      in (r, w\<lparr>now := now w + elapsed env url i, trace := trace w @ [Request url r]\<rparr>))"

text \<open>
  The retry loop of \<^verbatim>\<open>fetchLatestRelease\<close>, from iteration \<open>attempt\<close> on. It leaves
  by \<^verbatim>\<open>return data\<close>, or falls through to step 3 with \<^verbatim>\<open>lastErr\<close> (by
  \<^verbatim>\<open>break\<close> or when the budget is used up). Every caught value is an object, so the
  guard \<^verbatim>\<open>err &&\<close> is true.
\<close>

datatype loop_exit = Returned jsval | FellThrough "js_error option"

definition rate_limited :: "js_error \<Rightarrow> bool" where
  "rate_limited err = (err_status err = Some 403 \<or> err_status err = Some 429)"

function retry_loop ::
  "env \<Rightarrow> string \<Rightarrow> string \<Rightarrow> nat \<Rightarrow> js_error option \<Rightarrow> world \<Rightarrow> loop_exit \<times> world"
where
  "retry_loop env repo url attempt lastErr w =
     (if attempt \<le> MAX_RETRIES then
        (case fetchWithTimeout env url w of
           (Inr data, w1) \<Rightarrow> (Returned data, setCached env repo data w1)
         | (Inl err, w1) \<Rightarrow>
             if rate_limited err then (FellThrough (Some err), w1)
             else if attempt < MAX_RETRIES
               then retry_loop env repo url (attempt + 1) (Some err)
                      (sleep (400 + int attempt * 500) w1)
               else retry_loop env repo url (attempt + 1) (Some err) w1)
      else (FellThrough lastErr, w))"
  by pat_completeness auto
termination
  by (relation "measure (\<lambda>(env, repo, url, attempt, lastErr, w). Suc MAX_RETRIES - attempt)") auto

declare retry_loop.simps [simp del]

text \<open>Step 3 and the final \<^verbatim>\<open>throw\<close> of \<^verbatim>\<open>fetchLatestRelease\<close>.\<close>

definition final_error :: "js_error option \<Rightarrow> js_error" where
  "final_error lastErr =
     (case lastErr of
        Some e \<Rightarrow> e
      | None \<Rightarrow> Error ''Unknown error fetching release data'' None None)"

definition stale_fallback :: "env \<Rightarrow> string \<Rightarrow> js_error option \<Rightarrow> world \<Rightarrow> jsval result" where
  "stale_fallback env repo lastErr w =
     (let raw = getItem w (cacheKey repo);
          stale = (case raw of
                     None \<Rightarrow> Null
                   | Some s \<Rightarrow> if s = [] then Null else safeJsonParse env s)
      in if \<not> truthy stale then Inl (final_error lastErr)
         else and_then (get_prop stale ''data'') (\<lambda>d.
                if truthy d then Inr d else Inl (final_error lastErr)))"

definition release_url :: "string \<Rightarrow> string" where
  "release_url repo = GITHUB_API @ ''/repos/'' @ repo @ ''/releases/latest''"

definition fetchLatestRelease :: "env \<Rightarrow> string \<Rightarrow> world \<Rightarrow> jsval result \<times> world" where
  "fetchLatestRelease env repo w =
     (case getCached env repo w of
        Inl e \<Rightarrow> (Inl e, w)
      | Inr cached \<Rightarrow>
          if truthy cached then (Inr cached, w)
          else
            (case retry_loop env repo (release_url repo) 0 None w of
               (Returned data, w') \<Rightarrow> (Inr data, w')
             | (FellThrough lastErr, w') \<Rightarrow> (stale_fallback env repo lastErr w', w')))"

subsection \<open>Normalisation\<close>

text \<open>
  \<^verbatim>\<open>String.prototype.trim\<close> removes white space and line terminators at both ends;
  among the code units of the model these are TAB, LF, VT, FF, CR, SP and NBSP.
  \<^verbatim>\<open>replace(/^v/i, "")\<close> removes one \<^verbatim>\<open>v\<close> or \<^verbatim>\<open>V\<close> at the start.
\<close>

definition is_ws :: "char \<Rightarrow> bool" where
  "is_ws c = (of_char c \<in> {9, 10, 11, 12, 13, 32, 160 :: nat})"

definition trim :: "string \<Rightarrow> string" where
  "trim s = rev (dropWhile is_ws (rev (dropWhile is_ws s)))"

fun replace_leading_v :: "string \<Rightarrow> string" where
  "replace_leading_v [] = []"
| "replace_leading_v (c # cs) = (if c = CHR ''v'' \<or> c = CHR ''V'' then cs else c # cs)"

text \<open>
  The options of \<^verbatim>\<open>normalizeVersion\<close>, with the defaults of its parameter list
  (\<^verbatim>\<open>prefer\<close> is written \<open>prefer_field\<close>).
\<close>

record opts =
  prefer_field :: string
  stripLeadingV :: bool

definition default_opts :: opts where
  "default_opts = \<lparr>prefer_field = ''tag_name'', stripLeadingV = True\<rparr>"

definition normalizeVersion :: "jsval \<Rightarrow> opts \<Rightarrow> string option result" where
  "normalizeVersion release opt =
     (if \<not> truthy release then Inr None
      else
        and_then (get_prop release (prefer_field opt)) (\<lambda>a.
        and_then
          (if truthy a then Inr a
           else and_then (get_prop release ''tag_name'') (\<lambda>b.
                  if truthy b then Inr b
                  else and_then (get_prop release ''name'') (\<lambda>c.
                         if truthy c then Inr c else Inr Null)))
          (\<lambda>v.
             if typeof v \<noteq> ''string'' then Inr None
             else (case v of
                     Str s \<Rightarrow>
                       let t = trim s
                       in Inr (Some (if stripLeadingV opt then replace_leading_v t else t))
                   | _ \<Rightarrow> Inr None))))"

definition getFirstAssetUrl :: "jsval \<Rightarrow> string option result" where
  "getFirstAssetUrl release =
     and_then (opt_prop release ''assets'') (\<lambda>a.
       let assets = (if isArray a then a else Arr [])
       in and_then (get_index assets 0) (\<lambda>first.
            and_then (opt_prop first ''browser_download_url'') (\<lambda>url.
              if typeof url = ''string''
              then (case url of
                      Str u \<Rightarrow> Inr (if length u \<noteq> 0 then Some u else None)
                    | _ \<Rightarrow> Inr None)
              else Inr None)))"

section \<open>The specification's reading, for comparison\<close>

text \<open>
  The value of a field of a payload, \<^verbatim>\<open>undefined\<close> where the payload has none, and
  the field as a string, if it is present and a string.
\<close>

definition field :: "jsval \<Rightarrow> string \<Rightarrow> jsval" where
  "field release k =
     (case release of
        Obj fs \<Rightarrow> (case map_of fs k of None \<Rightarrow> Undefined | Some v \<Rightarrow> v)
      | _ \<Rightarrow> Undefined)"

definition string_field :: "jsval \<Rightarrow> string \<Rightarrow> string option" where
  "string_field release k = (case field release k of Str s \<Rightarrow> Some s | _ \<Rightarrow> None)"

text \<open>What normalisation makes of the selected value: absent unless it is a string.\<close>

definition version_of :: "opts \<Rightarrow> jsval \<Rightarrow> string option" where
  "version_of opt v =
     (case v of
        Str s \<Rightarrow> Some (if stripLeadingV opt then replace_leading_v (trim s) else trim s)
      | _ \<Rightarrow> None)"

text \<open>
  \<open>extractVersion\<close> as the specification words it: the preferred field; if that is
  absent or not a string, the tag field; then the name field.
\<close>

definition extractVersion_spec :: "jsval \<Rightarrow> opts \<Rightarrow> string option" where
  "extractVersion_spec release opt =
     (case string_field release (prefer_field opt) of
        Some s \<Rightarrow> version_of opt (Str s)
      | None \<Rightarrow>
          (case string_field release ''tag_name'' of
             Some s \<Rightarrow> version_of opt (Str s)
           | None \<Rightarrow>
               (case string_field release ''name'' of
                  Some s \<Rightarrow> version_of opt (Str s)
                | None \<Rightarrow> None)))"

text \<open>
  \<open>extractPrimaryAssetUrl\<close> as the specification words it: the download URL of the
  first entry of the asset sequence, if there is one and the URL is a non-empty string.
\<close>

definition asset_sequence :: "jsval \<Rightarrow> jsval list" where
  "asset_sequence release = (case field release ''assets'' of Arr xs \<Rightarrow> xs | _ \<Rightarrow> [])"

definition extractPrimaryAssetUrl_spec :: "jsval \<Rightarrow> string option" where
  "extractPrimaryAssetUrl_spec release =
     (case asset_sequence release of
        [] \<Rightarrow> None
      | first # rest \<Rightarrow>
          (case string_field first ''browser_download_url'' of
             None \<Rightarrow> None
           | Some u \<Rightarrow> if u = [] then None else Some u))"

text \<open>The events of a run that started in \<open>w\<close> and ended in \<open>w'\<close>.\<close>

definition new_events :: "world \<Rightarrow> world \<Rightarrow> event list" where
  "new_events w w' = drop (length (trace w)) (trace w')"

text \<open>Whether a string starts with the marker that \<open>replace_leading_v\<close> removes.\<close>

definition leading_v :: "string \<Rightarrow> bool" where
  "leading_v s = (case s of [] \<Rightarrow> False | c # cs \<Rightarrow> c = CHR ''v'' \<or> c = CHR ''V'')"

text \<open>
  A sequence of events in which a request that failed with status 403 or 429 is followed
  by nothing.
\<close>

fun settled :: "event list \<Rightarrow> bool" where
  "settled [] = True"
| "settled (Request u (Inl err) # evs) = (if rate_limited err then evs = [] else settled evs)"
| "settled (ev # evs) = settled evs"

section \<open>Concrete payloads, stores and networks\<close>

text \<open>
  The first example payload of the specification, and three texts a store can hold under
  the key of \<^verbatim>\<open>twbs/bootstrap\<close>: a well-formed entry, an entry whose payload is
  \<^verbatim>\<open>false\<close>, and an entry whose timestamp is an object with a property
  \<^verbatim>\<open>toString\<close>.
\<close>

definition demo_release :: jsval where
  "demo_release =
     Obj [(''tag_name'', Str ''v5.3.3''), (''name'', Str ''v5.3.3''),
          (''assets'', Arr [Obj [(''browser_download_url'', Str ''https://x/dist.zip'')]])]"

definition demo_opts :: opts where
  "demo_opts = \<lparr>prefer_field = ''name'', stripLeadingV = True\<rparr>"

definition raw_entry :: string where
  \<open>raw_entry = ''{"ts":1000,"data":{"tag_name":"v5.3.3"}}''\<close>

definition raw_false :: string where
  \<open>raw_false = ''{"ts":1000,"data":false}''\<close>

definition raw_bad_ts :: string where
  \<open>raw_bad_ts = ''{"ts":{"toString":null},"data":{"tag_name":"v5.3.3"}}''\<close>

definition raw_release :: string where
  \<open>raw_release = ''{"ts":2000,"data":{"tag_name":"v5.3.3","name":"v5.3.3","assets":[{"browser_download_url":"https://x/dist.zip"}]}}''\<close>

text \<open>
  A codec that agrees with \<^verbatim>\<open>JSON.parse\<close> on these three texts (and rejects every
  other text), and with \<^verbatim>\<open>JSON.stringify\<close> on the two entries that the runs below write.
\<close>

definition demo_parse :: "string \<Rightarrow> jsval result" where
  "demo_parse s =
     (if s = raw_entry
        then Inr (Obj [(''ts'', Num 1000), (''data'', Obj [(''tag_name'', Str ''v5.3.3'')])])
      else if s = raw_false
        then Inr (Obj [(''ts'', Num 1000), (''data'', Bool False)])
      else if s = raw_bad_ts
        then Inr (Obj [(''ts'', Obj [(''toString'', Null)]),
                       (''data'', Obj [(''tag_name'', Str ''v5.3.3'')])])
      else Inl SyntaxError)"

definition demo_stringify :: "jsval \<Rightarrow> string result" where
  "demo_stringify v =
     (if v = Obj [(''ts'', Num 1000), (''data'', Bool False)] then Inr raw_false
      else if v = Obj [(''ts'', Num 2000), (''data'', demo_release)] then Inr raw_release
      else Inl TypeError)"

text \<open>
  Networks: one that is down, one that fails once and then answers 403, one that
  always answers 403, and one that serves a payload. No run below reads a number from a string.
\<close>

definition offline :: "string \<Rightarrow> nat \<Rightarrow> fetch_outcome" where
  "offline u i = Rejects TypeError"

definition forbidden_response :: response where
  "forbidden_response =
     \<lparr>ok = False, status = 403, statusText = ''Forbidden'',
      body_text = Inr ''rate limit exceeded'', json = Inl SyntaxError\<rparr>"

definition forbidden_after_one :: "string \<Rightarrow> nat \<Rightarrow> fetch_outcome" where
  "forbidden_after_one u i = (if i = 0 then Rejects TypeError else Responds forbidden_response)"

definition always_forbidden :: "string \<Rightarrow> nat \<Rightarrow> fetch_outcome" where
  "always_forbidden u i = Responds forbidden_response"

definition serving :: "jsval \<Rightarrow> string \<Rightarrow> nat \<Rightarrow> fetch_outcome" where
  "serving d u i =
     Responds \<lparr>ok = True, status = 200, statusText = ''OK'', body_text = Inr [], json = Inr d\<rparr>"

definition demo_env :: "(string \<Rightarrow> nat \<Rightarrow> fetch_outcome) \<Rightarrow> env" where
  "demo_env net =
     \<lparr>JSON_parse = demo_parse, JSON_stringify = demo_stringify,
      StringToNumber = (\<lambda>s. None), fetch = net, elapsed = (\<lambda>u i. 0),
      accepts = (\<lambda>m k v. True)\<rparr>"

definition demo_world :: "string option \<Rightarrow> int \<Rightarrow> world" where
  "demo_world raw t =
     \<lparr>items = (case raw of None \<Rightarrow> Map.empty | Some r \<Rightarrow> [cacheKey ''twbs/bootstrap'' \<mapsto> r]),
      now = t, trace = []\<rparr>"

section \<open>Reading a payload\<close>

lemma get_prop_truthy: "truthy v \<Longrightarrow> get_prop v k = Inr (field v k)"
  by (cases v) (simp_all add: field_def)

lemma opt_prop_field: "opt_prop v k = Inr (field v k)"
  by (cases v) (simp_all add: opt_prop_def field_def)

text \<open>
  Claim C9. For every payload, \<open>getFirstAssetUrl\<close> never raises, and it returns the
  download URL of the first entry of the asset sequence exactly when the sequence is not
  empty and that URL is a non-empty string; in every other case (no \<^verbatim>\<open>assets\<close>
  field or one that is no array, an empty sequence, a missing, empty or non-string URL)
  it returns absent.
\<close>

theorem getFirstAssetUrl_first_asset:
  "getFirstAssetUrl release = Inr (extractPrimaryAssetUrl_spec release) \<and>
   (extractPrimaryAssetUrl_spec release = Some u) =
     (\<exists>first rest. asset_sequence release = first # rest \<and>
        string_field first ''browser_download_url'' = Some u \<and> u \<noteq> [])"
proof
  show "getFirstAssetUrl release = Inr (extractPrimaryAssetUrl_spec release)"
  proof (cases "field release ''assets''")
    case (Arr xs)
    then show ?thesis
      by (cases xs)
        (auto simp: getFirstAssetUrl_def extractPrimaryAssetUrl_spec_def asset_sequence_def
          string_field_def opt_prop_field and_then_def field_def split: jsval.splits)
  qed (simp_all add: getFirstAssetUrl_def extractPrimaryAssetUrl_spec_def asset_sequence_def
          opt_prop_field and_then_def field_def)
next
  show "(extractPrimaryAssetUrl_spec release = Some u) =
     (\<exists>first rest. asset_sequence release = first # rest \<and>
        string_field first ''browser_download_url'' = Some u \<and> u \<noteq> [])"
    by (auto simp: extractPrimaryAssetUrl_spec_def split: list.splits option.splits)
qed

theorem getFirstAssetUrl_first_asset_witness:
  "getFirstAssetUrl demo_release = Inr (Some ''https://x/dist.zip'')"
  using getFirstAssetUrl_first_asset [of demo_release]
  by (simp add: demo_release_def extractPrimaryAssetUrl_spec_def asset_sequence_def
      string_field_def field_def)

text \<open>
  Claim C1, as stated, fails on the code: the selection is the chain
  \<^verbatim>\<open>release[prefer] || release.tag_name || release.name || null\<close>, which moves on
  from a falsy value, not from a non-string one. With the name field preferred, a
  payload whose name is the empty string yields the tag (the claim: no fallback), and a
  payload whose name is the number 5 yields absent (the claim: fallback to the tag).
\<close>

theorem normalizeVersion_fallback_counterexample:
  "normalizeVersion (Obj [(''tag_name'', Str ''v1.2.3''), (''name'', Str [])]) demo_opts
     = Inr (Some ''1.2.3'') \<and>
   extractVersion_spec (Obj [(''tag_name'', Str ''v1.2.3''), (''name'', Str [])]) demo_opts
     = Some [] \<and>
   normalizeVersion (Obj [(''tag_name'', Str ''v1.2.3''), (''name'', Num 5)]) demo_opts
     = Inr None \<and>
   extractVersion_spec (Obj [(''tag_name'', Str ''v1.2.3''), (''name'', Num 5)]) demo_opts
     = Some ''1.2.3''"
  by (simp add: normalizeVersion_def extractVersion_spec_def version_of_def string_field_def
      field_def and_then_def trim_def is_ws_def demo_opts_def)

text \<open>
  Claim C1, amended. For every payload and every rule whose preferred field is the tag
  field or the name field, \<open>normalizeVersion\<close> never raises; it is absent on a falsy
  payload; otherwise it selects the value of the preferred field when that value is
  truthy, and falls back to the tag field and then the name field exactly when the value
  before is falsy (absent, \<^verbatim>\<open>null\<close>, the empty string, 0 or \<^verbatim>\<open>false\<close>).
  The selected value is normalised if it is a string and gives absent if it is not: a
  present empty-string preferred value triggers the fallback, a present truthy
  non-string one does not.
\<close>

theorem normalizeVersion_first_truthy:
  "prefer_field opt = ''tag_name'' \<or> prefer_field opt = ''name'' \<Longrightarrow>
   normalizeVersion release opt =
     Inr (if \<not> truthy release then None
          else version_of opt
            (if truthy (field release (prefer_field opt)) then field release (prefer_field opt)
             else if truthy (field release ''tag_name'') then field release ''tag_name''
             else if truthy (field release ''name'') then field release ''name''
             else Null))"
  by (auto simp: normalizeVersion_def get_prop_truthy and_then_def version_of_def Let_def
      split: jsval.splits)

theorem normalizeVersion_first_truthy_witness:
  "(prefer_field demo_opts = ''tag_name'' \<or> prefer_field demo_opts = ''name'') \<and>
   normalizeVersion demo_release demo_opts = Inr (Some ''5.3.3'')"
proof -
  have h: "prefer_field demo_opts = ''tag_name'' \<or> prefer_field demo_opts = ''name''"
    by (simp add: demo_opts_def)
  from normalizeVersion_first_truthy [OF h, of demo_release] h show ?thesis
    by (simp add: demo_release_def demo_opts_def version_of_def field_def trim_def is_ws_def)
qed

text \<open>
  Claim C8, as stated, fails on the code: \<^verbatim>\<open>replace(/^v/i, "")\<close> removes one
  marker, so a string that starts with two loses one at each application.
\<close>

theorem strip_idempotent_counterexample:
  "replace_leading_v ''vv1.0'' = ''v1.0'' \<and>
   replace_leading_v (replace_leading_v ''vv1.0'') = ''1.0'' \<and>
   replace_leading_v (replace_leading_v ''vv1.0'') \<noteq> replace_leading_v ''vv1.0''"
  by simp

text \<open>
  Claim C8, amended. The strip removes exactly one leading marker: it drops the first
  character when that is \<^verbatim>\<open>v\<close> or \<^verbatim>\<open>V\<close> and leaves every other string
  as it is. So stripping an already stripped string leaves it unchanged exactly when the
  stripped string does not itself start with a marker (as for 5.3.3). And
  \<open>normalizeVersion\<close> is deterministic: it reads neither the store, the clock nor the
  network, and on a payload whose preferred field (tag or name) is a non-empty string
  its result is this function of the payload and the rule: the trimmed string, less one
  leading marker when the rule asks for the strip.
\<close>

theorem strip_once:
  "replace_leading_v s = (if leading_v s then tl s else s) \<and>
   (replace_leading_v (replace_leading_v s) = replace_leading_v s) =
     (\<not> leading_v (replace_leading_v s)) \<and>
   ((prefer_field opt = ''tag_name'' \<or> prefer_field opt = ''name'') \<and>
    field release (prefer_field opt) = Str v \<and> v \<noteq> [] \<longrightarrow>
      normalizeVersion release opt =
        Inr (Some (if stripLeadingV opt
                   then (if leading_v (trim v) then tl (trim v) else trim v)
                   else trim v)))"
proof (intro conjI impI)
  show one: "replace_leading_v s = (if leading_v s then tl s else s)" for s
    by (cases s) (simp_all add: leading_v_def)
  show "(replace_leading_v (replace_leading_v s) = replace_leading_v s) =
     (\<not> leading_v (replace_leading_v s))"
    by (cases "replace_leading_v s") (auto simp: leading_v_def)
  assume h: "(prefer_field opt = ''tag_name'' \<or> prefer_field opt = ''name'') \<and>
    field release (prefer_field opt) = Str v \<and> v \<noteq> []"
  then have t: "truthy release"
    by (cases release) (simp_all add: field_def)
  with h show "normalizeVersion release opt =
        Inr (Some (if stripLeadingV opt
                   then (if leading_v (trim v) then tl (trim v) else trim v)
                   else trim v))"
    by (simp add: normalizeVersion_def get_prop_truthy and_then_def one [symmetric])
qed

theorem strip_once_witness:
  "(prefer_field demo_opts = ''tag_name'' \<or> prefer_field demo_opts = ''name'') \<and>
   field demo_release (prefer_field demo_opts) = Str ''v5.3.3'' \<and> ''v5.3.3'' \<noteq> [] \<and>
   normalizeVersion demo_release demo_opts = Inr (Some ''5.3.3'') \<and>
   replace_leading_v ''v5.3.3'' = ''5.3.3'' \<and>
   \<not> leading_v (replace_leading_v ''v5.3.3'') \<and>
   replace_leading_v (replace_leading_v ''v5.3.3'') = replace_leading_v ''v5.3.3''"
proof -
  have h: "(prefer_field demo_opts = ''tag_name'' \<or> prefer_field demo_opts = ''name'') \<and>
    field demo_release (prefer_field demo_opts) = Str ''v5.3.3'' \<and> ''v5.3.3'' \<noteq> []"
    by (simp add: demo_opts_def demo_release_def field_def)
  note t = strip_once [of "''v5.3.3''" demo_opts demo_release "''v5.3.3''"]
  from t [THEN conjunct2, THEN conjunct2, rule_format, OF h]
  have n: "normalizeVersion demo_release demo_opts = Inr (Some ''5.3.3'')"
    by (simp add: demo_opts_def leading_v_def trim_def is_ws_def)
  from h n show ?thesis by (simp add: leading_v_def)
qed

section \<open>The retry loop\<close>

lemma fst_fetchWithTimeout:
  "fst (fetchWithTimeout env url w) = fetch_result (fetch env url (requests w))"
  by (simp add: fetchWithTimeout_def Let_def)

lemma trace_fetchWithTimeout:
  "trace (snd (fetchWithTimeout env url w)) =
     trace w @ [Request url (fetch_result (fetch env url (requests w)))]"
  by (simp add: fetchWithTimeout_def Let_def)

lemma items_fetchWithTimeout: "items (snd (fetchWithTimeout env url w)) = items w"
  by (simp add: fetchWithTimeout_def Let_def)

lemma requests_fetchWithTimeout:
  "requests (snd (fetchWithTimeout env url w)) = Suc (requests w)"
  by (simp add: requests_def trace_fetchWithTimeout)

lemma trace_setCached: "trace (setCached env repo d w) = trace w"
  by (auto simp: setCached_def setItem_def and_then_def split: sum.splits)

lemma trace_sleep: "trace (sleep ms w) = trace w @ [Sleep ms]"
  by (simp add: sleep_def)

lemma items_sleep: "items (sleep ms w) = items w"
  by (simp add: sleep_def)

lemma requests_sleep: "requests (sleep ms w) = requests w"
  by (simp add: requests_def trace_sleep)

lemma requests_setCached: "requests (setCached env repo d w) = requests w"
  by (simp add: requests_def trace_setCached)

lemma retry_loop_done:
  "\<not> attempt \<le> MAX_RETRIES \<Longrightarrow>
   retry_loop env repo url attempt lastErr w = (FellThrough lastErr, w)"
  by (simp add: retry_loop.simps)

lemma retry_loop_success:
  "attempt \<le> MAX_RETRIES \<Longrightarrow> fetch_result (fetch env url (requests w)) = Inr d \<Longrightarrow>
   retry_loop env repo url attempt lastErr w =
     (Returned d, setCached env repo d (snd (fetchWithTimeout env url w)))"
  using fst_fetchWithTimeout [of env url w]
  by (subst retry_loop.simps) (auto split: prod.splits sum.splits)

lemma retry_loop_break:
  "attempt \<le> MAX_RETRIES \<Longrightarrow> fetch_result (fetch env url (requests w)) = Inl e \<Longrightarrow>
   rate_limited e \<Longrightarrow>
   retry_loop env repo url attempt lastErr w =
     (FellThrough (Some e), snd (fetchWithTimeout env url w))"
  using fst_fetchWithTimeout [of env url w]
  by (subst retry_loop.simps) (auto split: prod.splits sum.splits)

lemma retry_loop_retry:
  "attempt \<le> MAX_RETRIES \<Longrightarrow> fetch_result (fetch env url (requests w)) = Inl e \<Longrightarrow>
   \<not> rate_limited e \<Longrightarrow>
   retry_loop env repo url attempt lastErr w =
     retry_loop env repo url (attempt + 1) (Some e)
       (if attempt < MAX_RETRIES
        then sleep (400 + int attempt * 500) (snd (fetchWithTimeout env url w))
        else snd (fetchWithTimeout env url w))"
  using fst_fetchWithTimeout [of env url w]
  by (subst retry_loop.simps) (auto split: prod.splits sum.splits)

lemma settled_split:
  "settled evs \<Longrightarrow> evs = pre @ Request u (Inl err) # post \<Longrightarrow> rate_limited err \<Longrightarrow> post = []"
proof -
  have "settled (pre @ Request u (Inl err) # post) \<Longrightarrow> rate_limited err \<Longrightarrow> post = []"
  proof (induction pre)
    case Nil
    then show ?case by simp
  next
    case (Cons x pre)
    show ?case
    proof (cases x)
      case (Request u' r)
      with Cons show ?thesis by (cases r) (auto split: if_splits)
    next
      case (Sleep ms)
      with Cons show ?thesis by simp
    qed
  qed
  then show "settled evs \<Longrightarrow> evs = pre @ Request u (Inl err) # post \<Longrightarrow> rate_limited err \<Longrightarrow>
      post = []"
    by simp
qed

lemma retry_loop_trace:
  "\<exists>evs. trace (snd (retry_loop env repo url attempt lastErr w)) = trace w @ evs \<and> settled evs"
proof (induction "Suc MAX_RETRIES - attempt" arbitrary: attempt lastErr w)
  case 0
  then show ?case by (simp add: retry_loop_done)
next
  case (Suc k)
  then have le: "attempt \<le> MAX_RETRIES" by simp
  show ?case
  proof (cases "fetch_result (fetch env url (requests w))")
    case (Inr d)
    then show ?thesis
      by (simp add: retry_loop_success [OF le] trace_setCached trace_fetchWithTimeout)
  next
    case (Inl e)
    show ?thesis
    proof (cases "rate_limited e")
      case True
      then show ?thesis
        by (simp add: retry_loop_break [OF le Inl] trace_fetchWithTimeout Inl)
    next
      case False
      let ?w1 = "if attempt < MAX_RETRIES
        then sleep (400 + int attempt * 500) (snd (fetchWithTimeout env url w))
        else snd (fetchWithTimeout env url w)"
      from Suc.hyps(2) have "k = Suc MAX_RETRIES - (attempt + 1)" by simp
      from Suc.hyps(1) [OF this, of "Some e" ?w1]
      obtain evs where evs: "trace (snd (retry_loop env repo url (attempt + 1) (Some e) ?w1)) =
          trace ?w1 @ evs" "settled evs" by blast
      show ?thesis
        using evs False
        by (auto simp: retry_loop_retry [OF le Inl False] trace_sleep trace_fetchWithTimeout Inl)
    qed
  qed
qed

lemma new_events_append: "trace w' = trace w @ evs \<Longrightarrow> new_events w w' = evs"
  by (simp add: new_events_def)

lemma retry_loop_all_fail:
  assumes fail: "\<forall>i. isl (fetch_result (fetch env url i))"
  shows "\<exists>le. fst (retry_loop env repo url attempt lastErr w) = FellThrough le \<and>
          items (snd (retry_loop env repo url attempt lastErr w)) = items w \<and>
          (if attempt \<le> MAX_RETRIES
           then \<exists>e. le = Some e \<and>
                  last (trace (snd (retry_loop env repo url attempt lastErr w))) =
                    Request url (Inl e)
           else le = lastErr \<and> snd (retry_loop env repo url attempt lastErr w) = w)"
proof (induction "Suc MAX_RETRIES - attempt" arbitrary: attempt lastErr w)
  case 0
  then show ?case by (simp add: retry_loop_done)
next
  case (Suc k)
  then have le: "attempt \<le> MAX_RETRIES" by simp
  from fail obtain e where e: "fetch_result (fetch env url (requests w)) = Inl e"
    by (metis isl_def)
  show ?case
  proof (cases "rate_limited e")
    case True
    then show ?thesis
      by (simp add: retry_loop_break [OF le e] trace_fetchWithTimeout items_fetchWithTimeout e le)
  next
    case False
    let ?w1 = "if attempt < MAX_RETRIES
        then sleep (400 + int attempt * 500) (snd (fetchWithTimeout env url w))
        else snd (fetchWithTimeout env url w)"
    from Suc.hyps(2) have k: "k = Suc MAX_RETRIES - (attempt + 1)" by simp
    have items1: "items ?w1 = items w"
      by (simp add: items_sleep items_fetchWithTimeout)
    have last1: "\<not> attempt < MAX_RETRIES \<Longrightarrow> last (trace ?w1) = Request url (Inl e)"
      by (simp add: trace_fetchWithTimeout e)
    from Suc.hyps(1) [OF k, of "Some e" ?w1] items1 last1 le
    show ?thesis
      unfolding retry_loop_retry [OF le e False]
      by (auto split: if_splits)
  qed
qed

lemma retry_loop_generic_count:
  assumes fail: "\<forall>i. \<exists>e. fetch_result (fetch env url i) = Inl e \<and> \<not> rate_limited e"
  shows "requests (snd (retry_loop env repo url attempt lastErr w)) =
           requests w + (Suc MAX_RETRIES - attempt)"
proof (induction "Suc MAX_RETRIES - attempt" arbitrary: attempt lastErr w)
  case 0
  then show ?case by (simp add: retry_loop_done)
next
  case (Suc k)
  then have le: "attempt \<le> MAX_RETRIES" by simp
  from fail obtain e where e: "fetch_result (fetch env url (requests w)) = Inl e"
    and nrl: "\<not> rate_limited e" by blast
  let ?w1 = "if attempt < MAX_RETRIES
        then sleep (400 + int attempt * 500) (snd (fetchWithTimeout env url w))
        else snd (fetchWithTimeout env url w)"
  from Suc.hyps(2) have k: "k = Suc MAX_RETRIES - (attempt + 1)" by simp
  have "requests ?w1 = Suc (requests w)"
    by (simp add: requests_sleep requests_fetchWithTimeout)
  with Suc.hyps(1) [OF k, of "Some e" ?w1] le
  show ?case
    unfolding retry_loop_retry [OF le e nrl] by simp
qed

lemma fetchLatestRelease_trace:
  "\<exists>evs. trace (snd (fetchLatestRelease env repo w)) = trace w @ evs \<and> settled evs"
proof -
  obtain evs where "trace (snd (retry_loop env repo (release_url repo) 0 None w)) = trace w @ evs"
    "settled evs"
    using retry_loop_trace by blast
  then show ?thesis
    by (auto simp: fetchLatestRelease_def split: sum.splits prod.splits loop_exit.splits)
qed

lemmas demo_simps = demo_env_def demo_world_def offline_def forbidden_after_one_def
  always_forbidden_def
  forbidden_response_def serving_def demo_parse_def demo_stringify_def raw_entry_def
  raw_false_def raw_bad_ts_def raw_release_def demo_release_def

lemmas script_simps = fetchLatestRelease_def getCached_def getItem_def setCached_def
  setItem_def sleep_def fetchWithTimeout_def fetch_result_def api_error_def requests_def
  rate_limited_def stale_fallback_def final_error_def safeJsonParse_def and_then_def
  cacheKey_def CACHE_PREFIX_def CACHE_TTL_MS_def MAX_RETRIES_def new_events_def
  release_url_def GITHUB_API_def Let_def

text \<open>
  Claim C3. In every execution of the retry loop (from any iteration, and so in every
  call of \<open>fetchLatestRelease\<close>), a request that fails with an error of status 403 or
  429 is the last event of the execution: no request and no backoff wait follows it,
  whatever is left of the retry budget.
\<close>

theorem rate_limit_short_circuit:
  "(new_events w (snd (retry_loop env repo url attempt lastErr w)) =
      pre @ Request u (Inl err) # post \<and> rate_limited err \<longrightarrow> post = []) \<and>
   (new_events w (snd (fetchLatestRelease env repo w)) =
      pre @ Request u (Inl err) # post \<and> rate_limited err \<longrightarrow> post = [])"
proof (intro conjI impI; elim conjE)
  assume ev: "new_events w (snd (retry_loop env repo url attempt lastErr w)) =
      pre @ Request u (Inl err) # post" and rl: "rate_limited err"
  obtain evs where t: "trace (snd (retry_loop env repo url attempt lastErr w)) = trace w @ evs"
    and s: "settled evs"
    using retry_loop_trace by blast
  from t have "new_events w (snd (retry_loop env repo url attempt lastErr w)) = evs"
    by (rule new_events_append)
  with ev s rl show "post = []"
    using settled_split by metis
next
  assume ev: "new_events w (snd (fetchLatestRelease env repo w)) =
      pre @ Request u (Inl err) # post" and rl: "rate_limited err"
  obtain evs where t: "trace (snd (fetchLatestRelease env repo w)) = trace w @ evs"
    and s: "settled evs"
    using fetchLatestRelease_trace by blast
  from t have "new_events w (snd (fetchLatestRelease env repo w)) = evs"
    by (rule new_events_append)
  with ev s rl show "post = []"
    using settled_split by metis
qed

theorem rate_limit_short_circuit_witness:
  "new_events (demo_world None 0)
     (snd (retry_loop (demo_env forbidden_after_one) ''twbs/bootstrap''
        (release_url ''twbs/bootstrap'') 0 None (demo_world None 0))) =
     [Request (release_url ''twbs/bootstrap'') (Inl TypeError), Sleep 400] @
       Request (release_url ''twbs/bootstrap'') (Inl (api_error forbidden_response)) # [] \<and>
   new_events (demo_world None 0)
     (snd (fetchLatestRelease (demo_env forbidden_after_one) ''twbs/bootstrap''
        (demo_world None 0))) =
     [Request (release_url ''twbs/bootstrap'') (Inl TypeError), Sleep 400] @
       Request (release_url ''twbs/bootstrap'') (Inl (api_error forbidden_response)) # [] \<and>
   rate_limited (api_error forbidden_response)"
  using rate_limit_short_circuit [of "demo_world None 0" "demo_env forbidden_after_one"
      "''twbs/bootstrap''" "release_url ''twbs/bootstrap''" 0 None
      "[Request (release_url ''twbs/bootstrap'') (Inl TypeError), Sleep 400]"
      "release_url ''twbs/bootstrap''" "api_error forbidden_response" "[]"]
  by (simp add: demo_simps script_simps retry_loop.simps)

text \<open>
  Claim C4. When the lookup finds no fresh entry and every request fails with an error
  whose status is neither 403 nor 429, \<open>fetchLatestRelease\<close> issues exactly
  \<open>1 + MAX_RETRIES\<close> requests, which is 3.
\<close>

theorem retry_bound:
  "getCached env repo w = Inr c \<Longrightarrow> \<not> truthy c \<Longrightarrow>
   \<forall>i. \<exists>e. fetch_result (fetch env (release_url repo) i) = Inl e \<and> \<not> rate_limited e \<Longrightarrow>
   requests (snd (fetchLatestRelease env repo w)) = requests w + (1 + MAX_RETRIES) \<and>
   1 + MAX_RETRIES = 3"
  using retry_loop_generic_count [of env "release_url repo" repo 0 None w]
  by (auto simp: fetchLatestRelease_def MAX_RETRIES_def split: prod.splits loop_exit.splits)

theorem retry_bound_witness:
  "getCached (demo_env offline) ''twbs/bootstrap'' (demo_world None 0) = Inr Null \<and>
   \<not> truthy Null \<and>
   (\<forall>i. \<exists>e. fetch_result (fetch (demo_env offline) (release_url ''twbs/bootstrap'') i) = Inl e \<and>
      \<not> rate_limited e) \<and>
   requests (snd (fetchLatestRelease (demo_env offline) ''twbs/bootstrap'' (demo_world None 0))) = 3"
proof -
  have a: "getCached (demo_env offline) ''twbs/bootstrap'' (demo_world None 0) = Inr Null"
    by (simp add: demo_simps script_simps)
  have b: "\<not> truthy Null" by simp
  have c: "\<forall>i. \<exists>e. fetch_result (fetch (demo_env offline) (release_url ''twbs/bootstrap'') i) = Inl e \<and>
      \<not> rate_limited e"
    by (simp add: demo_simps fetch_result_def rate_limited_def)
  have d: "requests (demo_world None 0) = 0"
    by (simp add: demo_simps requests_def)
  from retry_bound [OF a b c] a b c d show ?thesis by simp
qed

section \<open>The cache and the fallback\<close>

lemma getCached_no_entry: "items w (cacheKey repo) = None \<Longrightarrow> getCached env repo w = Inr Null"
  by (simp add: getCached_def getItem_def)

lemma stale_fallback_items:
  "items w' = items w \<Longrightarrow> stale_fallback env repo le w' = stale_fallback env repo le w"
  by (simp add: stale_fallback_def getItem_def)

lemma stale_fallback_no_entry:
  "items w (cacheKey repo) = None \<Longrightarrow> stale_fallback env repo le w = Inl (final_error le)"
  by (simp add: stale_fallback_def getItem_def)

lemma stale_fallback_entry:
  "items w (cacheKey repo) = Some raw \<Longrightarrow> raw \<noteq> [] \<Longrightarrow> JSON_parse env raw = Inr entry \<Longrightarrow>
   truthy (field entry ''data'') \<Longrightarrow>
   stale_fallback env repo le w = Inr (field entry ''data'')"
  by (cases entry) (simp_all add: stale_fallback_def getItem_def safeJsonParse_def and_then_def field_def)

lemma stale_fallback_truthy: "stale_fallback env repo le w = Inr v \<Longrightarrow> truthy v"
  by (auto simp: stale_fallback_def and_then_def Let_def split: if_splits sum.splits)

lemma fetchLatestRelease_all_fail:
  assumes miss: "getCached env repo w = Inr c" "\<not> truthy c"
    and fail: "\<forall>i. isl (fetch_result (fetch env (release_url repo) i))"
  shows "\<exists>e. fst (fetchLatestRelease env repo w) = stale_fallback env repo (Some e) w \<and>
           last (trace (snd (fetchLatestRelease env repo w))) = Request (release_url repo) (Inl e)"
proof -
  obtain ex w' where r: "retry_loop env repo (release_url repo) 0 None w = (ex, w')"
    by (cases "retry_loop env repo (release_url repo) 0 None w")
  from retry_loop_all_fail [OF fail, of repo 0 None w] r
  obtain e where e: "ex = FellThrough (Some e)" "items w' = items w"
    "last (trace w') = Request (release_url repo) (Inl e)"
    by auto
  from e(2) have "stale_fallback env repo (Some e) w' = stale_fallback env repo (Some e) w"
    by (rule stale_fallback_items)
  with miss r e show ?thesis
    by (simp add: fetchLatestRelease_def)
qed

lemma getCached_entry:
  assumes "items w (cacheKey repo) = Some raw" "raw \<noteq> []" "JSON_parse env raw = Inr entry"
    and "field entry ''ts'' = Num t" "t \<noteq> 0" "truthy (field entry ''data'')"
  shows "getCached env repo w =
           Inr (if now w - t > CACHE_TTL_MS then Null else field entry ''data'')"
  using assms
  by (cases entry) (simp_all add: getCached_def getItem_def safeJsonParse_def and_then_def field_def)

text \<open>
  Claim C6. When the store holds nothing under the key and every request fails,
  \<open>fetchLatestRelease\<close> fails with the error of the last request it made (an error
  value, never \<^verbatim>\<open>null\<close>). The final \<^verbatim>\<open>throw\<close> would put the generic error
  \<^verbatim>\<open>Unknown error fetching release data\<close> in the place of an unrecorded one.
\<close>

theorem total_failure:
  "items w (cacheKey repo) = None \<Longrightarrow>
   \<forall>i. isl (fetch_result (fetch env (release_url repo) i)) \<Longrightarrow>
   (\<exists>e. fst (fetchLatestRelease env repo w) = Inl e \<and>
      last (trace (snd (fetchLatestRelease env repo w))) = Request (release_url repo) (Inl e)) \<and>
   stale_fallback env repo None w = Inl (Error ''Unknown error fetching release data'' None None)"
proof -
  assume none: "items w (cacheKey repo) = None"
    and fail: "\<forall>i. isl (fetch_result (fetch env (release_url repo) i))"
  have "getCached env repo w = Inr Null" "\<not> truthy Null"
    using none by (simp_all add: getCached_no_entry)
  from fetchLatestRelease_all_fail [OF this fail] none
  show ?thesis
    by (auto simp: stale_fallback_no_entry final_error_def)
qed

theorem total_failure_witness:
  "items (demo_world None 0) (cacheKey ''twbs/bootstrap'') = None \<and>
   (\<forall>i. isl (fetch_result (fetch (demo_env offline) (release_url ''twbs/bootstrap'') i))) \<and>
   fst (fetchLatestRelease (demo_env offline) ''twbs/bootstrap'' (demo_world None 0)) =
     Inl TypeError"
proof -
  have a: "items (demo_world None 0) (cacheKey ''twbs/bootstrap'') = None"
    by (simp add: demo_simps)
  have b: "\<forall>i. isl (fetch_result (fetch (demo_env offline) (release_url ''twbs/bootstrap'') i))"
    by (simp add: demo_simps fetch_result_def)
  have c: "trace (snd (fetchLatestRelease (demo_env offline) ''twbs/bootstrap''
      (demo_world None 0))) \<noteq> [] \<and>
    last (trace (snd (fetchLatestRelease (demo_env offline) ''twbs/bootstrap''
      (demo_world None 0)))) = Request (release_url ''twbs/bootstrap'') (Inl TypeError)"
    by (simp add: demo_simps script_simps retry_loop.simps)
  from total_failure [OF a b] a b c show ?thesis by auto
qed

text \<open>
  Claim C2, as stated, fails on the code: step 3 returns \<^verbatim>\<open>stale.data\<close> only when it
  is truthy. With the network down and an old entry whose payload is \<^verbatim>\<open>false\<close> in
  the store, \<open>fetchLatestRelease\<close> fails with the error of the last request.
\<close>

theorem stale_fallback_counterexample:
  "items (demo_world (Some raw_false) 30000000) (cacheKey ''twbs/bootstrap'') = Some raw_false \<and>
   JSON_parse (demo_env offline) raw_false =
     Inr (Obj [(''ts'', Num 1000), (''data'', Bool False)]) \<and>
   fst (fetchLatestRelease (demo_env offline) ''twbs/bootstrap''
          (demo_world (Some raw_false) 30000000)) = Inl TypeError"
  by (simp add: demo_simps script_simps retry_loop.simps)

text \<open>
  Claim C2, amended. When the lookup finds no fresh entry, every request fails (also
  when the first failure has status 403 or 429 and ends the loop) and the store holds
  under the key an entry, of any age, whose payload is truthy, \<open>fetchLatestRelease\<close>
  returns that payload instead of failing.
\<close>

theorem stale_fallback_payload:
  assumes "getCached env repo w = Inr c" "\<not> truthy c"
    and "\<forall>i. isl (fetch_result (fetch env (release_url repo) i))"
    and "items w (cacheKey repo) = Some raw" "raw \<noteq> []" "JSON_parse env raw = Inr entry"
    and "truthy (field entry ''data'')"
  shows "fst (fetchLatestRelease env repo w) = Inr (field entry ''data'')"
  using fetchLatestRelease_all_fail [OF assms(1-3)] stale_fallback_entry [OF assms(4-7)]
  by auto

theorem stale_fallback_payload_witness:
  "getCached (demo_env always_forbidden) ''twbs/bootstrap''
     (demo_world (Some raw_entry) 30000000) = Inr Null \<and>
   \<not> truthy Null \<and>
   (\<forall>i. isl (fetch_result
      (fetch (demo_env always_forbidden) (release_url ''twbs/bootstrap'') i))) \<and>
   items (demo_world (Some raw_entry) 30000000) (cacheKey ''twbs/bootstrap'') = Some raw_entry \<and>
   raw_entry \<noteq> [] \<and>
   JSON_parse (demo_env always_forbidden) raw_entry =
     Inr (Obj [(''ts'', Num 1000), (''data'', Obj [(''tag_name'', Str ''v5.3.3'')])]) \<and>
   fst (fetchLatestRelease (demo_env always_forbidden) ''twbs/bootstrap''
          (demo_world (Some raw_entry) 30000000)) = Inr (Obj [(''tag_name'', Str ''v5.3.3'')])"
proof -
  have a: "getCached (demo_env always_forbidden) ''twbs/bootstrap''
     (demo_world (Some raw_entry) 30000000) = Inr Null"
    by (simp add: demo_simps script_simps)
  have b: "\<not> truthy Null" by simp
  have c: "\<forall>i. isl (fetch_result
      (fetch (demo_env always_forbidden) (release_url ''twbs/bootstrap'') i))"
    by (simp add: demo_simps fetch_result_def)
  have d: "items (demo_world (Some raw_entry) 30000000) (cacheKey ''twbs/bootstrap'') =
      Some raw_entry"
    by (simp add: demo_simps)
  have e: "raw_entry \<noteq> []" by (simp add: raw_entry_def)
  have f: "JSON_parse (demo_env always_forbidden) raw_entry =
     Inr (Obj [(''ts'', Num 1000), (''data'', Obj [(''tag_name'', Str ''v5.3.3'')])])"
    by (simp add: demo_simps)
  have g: "truthy (field (Obj [(''ts'', Num 1000),
      (''data'', Obj [(''tag_name'', Str ''v5.3.3'')])]) ''data'')"
    by (simp add: field_def)
  from stale_fallback_payload [OF a b c d e f g] a b c d e f show ?thesis
    by (simp add: field_def)
qed

text \<open>
  Claim C5, as stated, fails on the code: \<open>getCached\<close> returns an entry only when its
  timestamp and its payload are truthy. With an entry that is one second old and whose
  payload is \<^verbatim>\<open>false\<close>, the lookup is absent and \<open>fetchLatestRelease\<close> goes to
  the network.
\<close>

theorem cache_freshness_counterexample:
  "items (demo_world (Some raw_false) 2000) (cacheKey ''twbs/bootstrap'') = Some raw_false \<and>
   JSON_parse (demo_env (serving demo_release)) raw_false =
     Inr (Obj [(''ts'', Num 1000), (''data'', Bool False)]) \<and>
   now (demo_world (Some raw_false) 2000) - 1000 \<le> CACHE_TTL_MS \<and>
   getCached (demo_env (serving demo_release)) ''twbs/bootstrap''
     (demo_world (Some raw_false) 2000) = Inr Null \<and>
   fst (fetchLatestRelease (demo_env (serving demo_release)) ''twbs/bootstrap''
          (demo_world (Some raw_false) 2000)) = Inr demo_release \<and>
   requests (snd (fetchLatestRelease (demo_env (serving demo_release)) ''twbs/bootstrap''
          (demo_world (Some raw_false) 2000))) = 1"
  by (simp add: demo_simps script_simps retry_loop.simps)

text \<open>
  Claim C5, amended. For every stored entry whose timestamp is a non-zero number and
  whose payload is truthy: if \<open>now - timestamp \<le> TTL\<close>, \<open>fetchLatestRelease\<close> returns
  the payload and leaves the world as it was (no request, no wait, no write); if
  \<open>now - timestamp > TTL\<close>, \<open>getCached\<close> does not return it, and it is still what
  \<open>fetchLatestRelease\<close> returns when every request fails.
\<close>

theorem cache_fresh_or_expired:
  assumes "items w (cacheKey repo) = Some raw" "raw \<noteq> []" "JSON_parse env raw = Inr entry"
    and "field entry ''ts'' = Num t" "t \<noteq> 0" "truthy (field entry ''data'')"
  shows "(now w - t \<le> CACHE_TTL_MS \<longrightarrow>
            getCached env repo w = Inr (field entry ''data'') \<and>
            fetchLatestRelease env repo w = (Inr (field entry ''data''), w)) \<and>
         (now w - t > CACHE_TTL_MS \<longrightarrow>
            getCached env repo w = Inr Null \<and>
            ((\<forall>i. isl (fetch_result (fetch env (release_url repo) i))) \<longrightarrow>
               fst (fetchLatestRelease env repo w) = Inr (field entry ''data'')))"
proof (intro conjI impI)
  assume "now w - t \<le> CACHE_TTL_MS"
  then show "getCached env repo w = Inr (field entry ''data'')"
    by (simp add: getCached_entry [OF assms])
next
  assume "now w - t \<le> CACHE_TTL_MS"
  with assms show "fetchLatestRelease env repo w = (Inr (field entry ''data''), w)"
    by (simp add: fetchLatestRelease_def getCached_entry [OF assms])
next
  assume "now w - t > CACHE_TTL_MS"
  then show "getCached env repo w = Inr Null"
    by (simp add: getCached_entry [OF assms])
next
  assume old: "now w - t > CACHE_TTL_MS"
    and fail: "\<forall>i. isl (fetch_result (fetch env (release_url repo) i))"
  from old have "getCached env repo w = Inr Null" "\<not> truthy Null"
    by (simp_all add: getCached_entry [OF assms])
  from fetchLatestRelease_all_fail [OF this fail]
    stale_fallback_entry [OF assms(1-3) assms(6)]
  show "fst (fetchLatestRelease env repo w) = Inr (field entry ''data'')"
    by auto
qed

theorem cache_fresh_or_expired_witness:
  "now (demo_world (Some raw_entry) 2000) - 1000 \<le> CACHE_TTL_MS \<and>
   getCached (demo_env offline) ''twbs/bootstrap'' (demo_world (Some raw_entry) 2000) =
     Inr (Obj [(''tag_name'', Str ''v5.3.3'')]) \<and>
   fetchLatestRelease (demo_env offline) ''twbs/bootstrap'' (demo_world (Some raw_entry) 2000) =
     (Inr (Obj [(''tag_name'', Str ''v5.3.3'')]), demo_world (Some raw_entry) 2000) \<and>
   now (demo_world (Some raw_entry) 30000000) - 1000 > CACHE_TTL_MS \<and>
   (\<forall>i. isl (fetch_result (fetch (demo_env offline) (release_url ''twbs/bootstrap'') i))) \<and>
   getCached (demo_env offline) ''twbs/bootstrap'' (demo_world (Some raw_entry) 30000000) =
     Inr Null \<and>
   fst (fetchLatestRelease (demo_env offline) ''twbs/bootstrap''
          (demo_world (Some raw_entry) 30000000)) = Inr (Obj [(''tag_name'', Str ''v5.3.3'')])"
proof -
  let ?entry = "Obj [(''ts'', Num 1000), (''data'', Obj [(''tag_name'', Str ''v5.3.3'')])]"
  have a: "items (demo_world (Some raw_entry) t) (cacheKey ''twbs/bootstrap'') = Some raw_entry"
    for t by (simp add: demo_simps)
  have b: "raw_entry \<noteq> []" by (simp add: raw_entry_def)
  have c: "JSON_parse (demo_env offline) raw_entry = Inr ?entry"
    by (simp add: demo_simps)
  have d: "field ?entry ''ts'' = Num 1000" "(1000::int) \<noteq> 0" "truthy (field ?entry ''data'')"
    by (simp_all add: field_def)
  have fresh: "now (demo_world (Some raw_entry) 2000) - 1000 \<le> CACHE_TTL_MS"
    by (simp add: demo_simps CACHE_TTL_MS_def)
  have old: "now (demo_world (Some raw_entry) 30000000) - 1000 > CACHE_TTL_MS"
    by (simp add: demo_simps CACHE_TTL_MS_def)
  have fail: "\<forall>i. isl (fetch_result (fetch (demo_env offline) (release_url ''twbs/bootstrap'') i))"
    by (simp add: demo_simps fetch_result_def)
  from cache_fresh_or_expired [OF a b c d, of 2000] cache_fresh_or_expired [OF a b c d, of 30000000]
    fresh old fail
  show ?thesis by (simp add: field_def)
qed

section \<open>Falsy payloads and malformed entries\<close>

lemma getCached_falsy_data:
  "items w (cacheKey repo) = Some raw \<Longrightarrow> \<not> truthy (field (safeJsonParse env raw) ''data'') \<Longrightarrow>
   getCached env repo w = Inr Null"
  by (cases "safeJsonParse env raw")
    (simp_all add: getCached_def getItem_def and_then_def field_def Let_def)

lemma stale_fallback_falsy_data:
  "items w (cacheKey repo) = Some raw \<Longrightarrow> \<not> truthy (field (safeJsonParse env raw) ''data'') \<Longrightarrow>
   stale_fallback env repo le w = Inl (final_error le)"
  by (cases "safeJsonParse env raw")
    (simp_all add: stale_fallback_def getItem_def and_then_def field_def Let_def)

lemma getCached_truthy: "getCached env repo w = Inr v \<Longrightarrow> v \<noteq> Null \<Longrightarrow> truthy v"
  by (auto simp: getCached_def and_then_def Let_def split: option.splits if_splits sum.splits)

lemma retry_loop_returned:
  "fst (retry_loop env repo url attempt lastErr w) = Returned d \<Longrightarrow>
   Request url (Inr d) \<in> set (new_events w (snd (retry_loop env repo url attempt lastErr w)))"
proof (induction "Suc MAX_RETRIES - attempt" arbitrary: attempt lastErr w)
  case 0
  then show ?case by (simp add: retry_loop_done)
next
  case (Suc k)
  then have le: "attempt \<le> MAX_RETRIES" by simp
  show ?case
  proof (cases "fetch_result (fetch env url (requests w))")
    case (Inr d')
    with Suc.prems show ?thesis
      by (simp add: retry_loop_success [OF le Inr] new_events_def trace_setCached
          trace_fetchWithTimeout)
  next
    case (Inl e)
    show ?thesis
    proof (cases "rate_limited e")
      case True
      with Suc.prems show ?thesis
        by (simp add: retry_loop_break [OF le Inl])
    next
      case False
      let ?w1 = "if attempt < MAX_RETRIES
        then sleep (400 + int attempt * 500) (snd (fetchWithTimeout env url w))
        else snd (fetchWithTimeout env url w)"
      let ?w' = "snd (retry_loop env repo url (attempt + 1) (Some e) ?w1)"
      from Suc.hyps(2) have k: "k = Suc MAX_RETRIES - (attempt + 1)" by simp
      from Suc.prems have "fst (retry_loop env repo url (attempt + 1) (Some e) ?w1) = Returned d"
        by (simp add: retry_loop_retry [OF le Inl False])
      from Suc.hyps(1) [OF k this]
      have mem: "Request url (Inr d) \<in> set (new_events ?w1 ?w')" .
      obtain evs where evs: "trace ?w' = trace ?w1 @ evs"
        using retry_loop_trace by blast
      have "\<exists>pre. trace ?w1 = trace w @ pre"
        by (simp add: trace_sleep trace_fetchWithTimeout)
      then obtain pre where pre: "trace ?w1 = trace w @ pre" ..
      from evs pre have "new_events ?w1 ?w' = evs" "new_events w ?w' = pre @ evs"
        by (simp_all add: new_events_def)
      with mem show ?thesis
        by (simp add: retry_loop_retry [OF le Inl False])
    qed
  qed
qed

lemma fetchLatestRelease_from_cache:
  assumes res: "fst (fetchLatestRelease env repo w) = Inr v"
    and none: "\<forall>u d. Request u (Inr d) \<notin> set (new_events w (snd (fetchLatestRelease env repo w)))"
  shows "truthy v"
proof (cases "getCached env repo w")
  case (Inl e)
  with res show ?thesis by (simp add: fetchLatestRelease_def)
next
  case (Inr c)
  show ?thesis
  proof (cases "truthy c")
    case True
    with res Inr show ?thesis by (simp add: fetchLatestRelease_def)
  next
    case False
    obtain ex w' where r: "retry_loop env repo (release_url repo) 0 None w = (ex, w')"
      by (cases "retry_loop env repo (release_url repo) 0 None w")
    show ?thesis
    proof (cases ex)
      case (Returned d)
      with retry_loop_returned [of env repo "release_url repo" 0 None w d] r
      have "Request (release_url repo) (Inr d) \<in> set (new_events w w')" by simp
      moreover from Inr False r Returned have "snd (fetchLatestRelease env repo w) = w'"
        by (simp add: fetchLatestRelease_def)
      ultimately show ?thesis using none by auto
    next
      case (FellThrough le)
      with Inr False r res have "stale_fallback env repo le w' = Inr v"
        by (simp add: fetchLatestRelease_def)
      then show ?thesis by (rule stale_fallback_truthy)
    qed
  qed
qed

lemma fetchLatestRelease_writes:
  assumes miss: "getCached env repo w = Inr c" "\<not> truthy c"
    and ok: "fetch_result (fetch env (release_url repo) (requests w)) = Inr d"
    and str: "JSON_stringify env
        (Obj [(''ts'', Num (now w + elapsed env (release_url repo) (requests w))), (''data'', d)])
        = Inr s"
    and acc: "accepts env (items w) (cacheKey repo) s"
  shows "fst (fetchLatestRelease env repo w) = Inr d \<and>
         items (snd (fetchLatestRelease env repo w)) (cacheKey repo) = Some s"
proof -
  have le: "0 \<le> MAX_RETRIES" by simp
  have "setCached env repo d (snd (fetchWithTimeout env (release_url repo) w)) =
      (snd (fetchWithTimeout env (release_url repo) w))
        \<lparr>items := (items w)(cacheKey repo \<mapsto> s)\<rparr>"
    using str acc
    by (simp add: setCached_def setItem_def fetchWithTimeout_def and_then_def Let_def)
  with miss show ?thesis
    by (simp add: fetchLatestRelease_def retry_loop_success [OF le ok])
qed

text \<open>
  Claim C10. Both cache read paths treat an entry whose stored payload is falsy as
  absent: \<open>getCached\<close> returns \<^verbatim>\<open>null\<close> and step 3 throws. So a value that
  \<open>fetchLatestRelease\<close> returns without a successful request in the run (a value from
  the cache) is truthy. Yet a successful fetch that decodes to any value, a falsy one
  too, is returned and written to the store (when the store accepts the write).
\<close>

theorem falsy_payload_absent:
  "(items w (cacheKey repo) = Some raw \<and> \<not> truthy (field (safeJsonParse env raw) ''data'') \<longrightarrow>
      getCached env repo w = Inr Null \<and>
      stale_fallback env repo lastErr w = Inl (final_error lastErr)) \<and>
   (fst (fetchLatestRelease env repo w) = Inr v \<and>
    (\<forall>u d. Request u (Inr d) \<notin> set (new_events w (snd (fetchLatestRelease env repo w)))) \<longrightarrow>
      truthy v) \<and>
   (getCached env repo w = Inr c \<and> \<not> truthy c \<and>
    fetch_result (fetch env (release_url repo) (requests w)) = Inr d \<and>
    JSON_stringify env
      (Obj [(''ts'', Num (now w + elapsed env (release_url repo) (requests w))), (''data'', d)])
      = Inr s \<and>
    accepts env (items w) (cacheKey repo) s \<longrightarrow>
      fst (fetchLatestRelease env repo w) = Inr d \<and>
      items (snd (fetchLatestRelease env repo w)) (cacheKey repo) = Some s)"
  using getCached_falsy_data [of w repo raw env] stale_fallback_falsy_data [of w repo raw env lastErr]
    fetchLatestRelease_from_cache [of env repo w v] fetchLatestRelease_writes [of env repo w c d s]
  by blast

theorem falsy_payload_absent_witness:
  "items (demo_world (Some raw_false) 2000) (cacheKey ''twbs/bootstrap'') = Some raw_false \<and>
   \<not> truthy (field (safeJsonParse (demo_env offline) raw_false) ''data'') \<and>
   getCached (demo_env offline) ''twbs/bootstrap'' (demo_world (Some raw_false) 2000) = Inr Null \<and>
   stale_fallback (demo_env offline) ''twbs/bootstrap'' (Some TypeError)
     (demo_world (Some raw_false) 2000) = Inl TypeError \<and>
   fst (fetchLatestRelease (demo_env offline) ''twbs/bootstrap''
     (demo_world (Some raw_entry) 2000)) = Inr (Obj [(''tag_name'', Str ''v5.3.3'')]) \<and>
   (\<forall>u d. Request u (Inr d) \<notin> set (new_events (demo_world (Some raw_entry) 2000)
      (snd (fetchLatestRelease (demo_env offline) ''twbs/bootstrap''
         (demo_world (Some raw_entry) 2000))))) \<and>
   truthy (Obj [(''tag_name'', Str ''v5.3.3'')]) \<and>
   getCached (demo_env (serving (Bool False))) ''twbs/bootstrap'' (demo_world None 1000) =
     Inr Null \<and>
   fetch_result (fetch (demo_env (serving (Bool False))) (release_url ''twbs/bootstrap'')
     (requests (demo_world None 1000))) = Inr (Bool False) \<and>
   JSON_stringify (demo_env (serving (Bool False)))
     (Obj [(''ts'', Num (now (demo_world None 1000) +
              elapsed (demo_env (serving (Bool False))) (release_url ''twbs/bootstrap'')
                (requests (demo_world None 1000)))),
           (''data'', Bool False)]) = Inr raw_false \<and>
   accepts (demo_env (serving (Bool False))) (items (demo_world None 1000))
     (cacheKey ''twbs/bootstrap'') raw_false \<and>
   fst (fetchLatestRelease (demo_env (serving (Bool False))) ''twbs/bootstrap''
     (demo_world None 1000)) = Inr (Bool False) \<and>
   items (snd (fetchLatestRelease (demo_env (serving (Bool False))) ''twbs/bootstrap''
     (demo_world None 1000))) (cacheKey ''twbs/bootstrap'') = Some raw_false"
proof -
  have a: "items (demo_world (Some raw_false) 2000) (cacheKey ''twbs/bootstrap'') =
      Some raw_false"
    "\<not> truthy (field (safeJsonParse (demo_env offline) raw_false) ''data'')"
    by (simp_all add: demo_simps safeJsonParse_def field_def)
  have b: "fst (fetchLatestRelease (demo_env offline) ''twbs/bootstrap''
     (demo_world (Some raw_entry) 2000)) = Inr (Obj [(''tag_name'', Str ''v5.3.3'')])"
    "\<forall>u d. Request u (Inr d) \<notin> set (new_events (demo_world (Some raw_entry) 2000)
      (snd (fetchLatestRelease (demo_env offline) ''twbs/bootstrap''
         (demo_world (Some raw_entry) 2000))))"
    by (simp_all add: demo_simps script_simps)
  have c: "getCached (demo_env (serving (Bool False))) ''twbs/bootstrap''
      (demo_world None 1000) = Inr Null"
    "\<not> truthy Null"
    "fetch_result (fetch (demo_env (serving (Bool False))) (release_url ''twbs/bootstrap'')
     (requests (demo_world None 1000))) = Inr (Bool False)"
    "JSON_stringify (demo_env (serving (Bool False)))
     (Obj [(''ts'', Num (now (demo_world None 1000) +
              elapsed (demo_env (serving (Bool False))) (release_url ''twbs/bootstrap'')
                (requests (demo_world None 1000)))),
           (''data'', Bool False)]) = Inr raw_false"
    "accepts (demo_env (serving (Bool False))) (items (demo_world None 1000))
     (cacheKey ''twbs/bootstrap'') raw_false"
    by (simp_all add: demo_simps script_simps)
  note t1 = falsy_payload_absent [of "demo_world (Some raw_false) 2000" "''twbs/bootstrap''"
      raw_false "demo_env offline" "Some TypeError", THEN conjunct1]
  from t1 a
  have 1: "getCached (demo_env offline) ''twbs/bootstrap'' (demo_world (Some raw_false) 2000) =
      Inr Null \<and>
    stale_fallback (demo_env offline) ''twbs/bootstrap'' (Some TypeError)
      (demo_world (Some raw_false) 2000) = Inl TypeError"
    by (simp add: final_error_def)
  note t3 = falsy_payload_absent [of "demo_world None 1000" "''twbs/bootstrap''" _
      "demo_env (serving (Bool False))" _ _ Null "Bool False" raw_false,
      THEN conjunct2, THEN conjunct2, rule_format]
  have 2: "fst (fetchLatestRelease (demo_env (serving (Bool False))) ''twbs/bootstrap''
     (demo_world None 1000)) = Inr (Bool False) \<and>
   items (snd (fetchLatestRelease (demo_env (serving (Bool False))) ''twbs/bootstrap''
     (demo_world None 1000))) (cacheKey ''twbs/bootstrap'') = Some raw_false"
    by (rule t3) (intro conjI c)
  have 3: "truthy (Obj [(''tag_name'', Str ''v5.3.3'')])" by simp
  from 1 2 3 a b c(1,3-5) show ?thesis by (intro conjI) (elim conjE, assumption)+
qed

lemma getCached_absent:
  "items w (cacheKey repo) = None \<Longrightarrow> getCached env repo w = Inr Null"
  "items w (cacheKey repo) = Some raw \<Longrightarrow> JSON_parse env raw = Inl e \<Longrightarrow>
     getCached env repo w = Inr Null"
  "items w (cacheKey repo) = Some raw \<Longrightarrow> JSON_parse env raw = Inr entry \<Longrightarrow>
     \<not> truthy (field entry ''ts'') \<or> \<not> truthy (field entry ''data'') \<Longrightarrow>
     getCached env repo w = Inr Null"
proof -
  show "items w (cacheKey repo) = None \<Longrightarrow> getCached env repo w = Inr Null"
    by (rule getCached_no_entry)
  show "items w (cacheKey repo) = Some raw \<Longrightarrow> JSON_parse env raw = Inl e \<Longrightarrow>
     getCached env repo w = Inr Null"
    by (simp add: getCached_def getItem_def safeJsonParse_def)
  show "items w (cacheKey repo) = Some raw \<Longrightarrow> JSON_parse env raw = Inr entry \<Longrightarrow>
     \<not> truthy (field entry ''ts'') \<or> \<not> truthy (field entry ''data'') \<Longrightarrow>
     getCached env repo w = Inr Null"
    by (cases entry)
      (auto simp: getCached_def getItem_def safeJsonParse_def and_then_def field_def Let_def)
qed

lemma ToNumber_primitive:
  "typeof v \<noteq> ''object'' \<or> v = Null \<Longrightarrow> \<exists>n. ToNumber s2n v = Inr n"
  by (cases v) simp_all

lemma getCached_total_on_primitive_ts:
  assumes "\<And>raw. items w (cacheKey repo) = Some raw \<Longrightarrow>
      typeof (field (safeJsonParse env raw) ''ts'') \<noteq> ''object''"
  shows "\<exists>v. getCached env repo w = Inr v"
proof (cases "items w (cacheKey repo)")
  case None
  then show ?thesis by (simp add: getCached_no_entry)
next
  case (Some raw)
  from assms [OF Some] ToNumber_primitive
  obtain n where n: "ToNumber (StringToNumber env) (field (safeJsonParse env raw) ''ts'') = Inr n"
    by blast
  show ?thesis
    using Some n
    by (cases "safeJsonParse env raw")
      (auto simp: getCached_def getItem_def and_then_def field_def Let_def)
qed

lemma setCached_swallows:
  "JSON_stringify env (Obj [(''ts'', Num (now w)), (''data'', d)]) = Inl e \<Longrightarrow>
     setCached env repo d w = w"
  "JSON_stringify env (Obj [(''ts'', Num (now w)), (''data'', d)]) = Inr s \<Longrightarrow>
     \<not> accepts env (items w) (cacheKey repo) s \<Longrightarrow> setCached env repo d w = w"
  by (simp_all add: setCached_def setItem_def and_then_def)

text \<open>
  Claim C7: for every key and every stored text, \<open>getCached\<close> never raises and is
  absent on a missing, unparseable or structurally invalid entry, and \<open>setCached\<close>
  swallows every failure of the store. The lemmas above are what holds of it: the
  entries the claim names are absent, \<open>getCached\<close> returns when the stored timestamp
  is a primitive value, and a failed write leaves the world as it was. But \<open>getCached\<close>
  subtracts the stored timestamp from the clock without looking at its type, and the
  conversion to a number of an object with an own property \<^verbatim>\<open>toString\<close> (or of
  an array that holds one) throws a TypeError. On the entry below \<open>getCached\<close> raises,
  and \<open>fetchLatestRelease\<close> fails before any request although the network would
  serve the payload.
\<close>

theorem getCached_raises_on_object_timestamp:
  "items (demo_world (Some raw_bad_ts) 2000) (cacheKey ''twbs/bootstrap'') = Some raw_bad_ts \<and>
   JSON_parse (demo_env (serving demo_release)) raw_bad_ts =
     Inr (Obj [(''ts'', Obj [(''toString'', Null)]),
               (''data'', Obj [(''tag_name'', Str ''v5.3.3'')])]) \<and>
   getCached (demo_env (serving demo_release)) ''twbs/bootstrap''
     (demo_world (Some raw_bad_ts) 2000) = Inl TypeError \<and>
   fetchLatestRelease (demo_env (serving demo_release)) ''twbs/bootstrap''
     (demo_world (Some raw_bad_ts) 2000) = (Inl TypeError, demo_world (Some raw_bad_ts) 2000)"
  by (simp add: demo_simps script_simps)

theorem getCached_raises_on_object_timestamp_witness:
  "fst (fetchLatestRelease (demo_env (serving demo_release)) ''twbs/bootstrap''
     (demo_world (Some raw_bad_ts) 2000)) = Inl TypeError \<and>
   requests (snd (fetchLatestRelease (demo_env (serving demo_release)) ''twbs/bootstrap''
     (demo_world (Some raw_bad_ts) 2000))) = 0"
  using getCached_raises_on_object_timestamp
  by (simp add: requests_def demo_world_def)

end
